theory Spec2Isabelle
  imports Complex_Main
begin

section \<open>Values exchanged with the external collaborators\<close>

text \<open>
  The orchestration layer of \<^verbatim>\<open>app.py\<close> never looks inside the media it moves around.
  Uploaded bytes are a list of octets; a decoded raster frame is a numpy array of which the
  handlers read only \<^verbatim>\<open>shape[0]\<close> (rows) and \<^verbatim>\<open>shape[1]\<close> (columns).
  \<^verbatim>\<open>cv2.imdecode\<close> yields \<^verbatim>\<open>None\<close> for bytes it cannot decode, so a frame handed on by a
  handler is an \<open>image option\<close>.
\<close>

type_synonym bytes = "nat list"

record image =
  rows :: nat
  cols :: nat
  pixels :: bytes

text \<open>
  Python exceptions are values. \<open>PyErr c msg\<close> is an exception of class \<open>c\<close> whose
  \<^verbatim>\<open>str(e)\<close> is \<open>msg\<close>; \<open>HTTPException\<close> is what the HTTP handlers raise towards the
  framework, which turns it into a response with that status code and detail.
\<close>

datatype exc_class =
  KeyError | TypeError | ValueError | OverflowError | AttributeError
  | FileNotFoundError | OSError | CvError | JSONDecodeError | WebSocketDisconnect
  | RuntimeError

datatype pyerr = PyErr exc_class string

fun str_of :: "pyerr \<Rightarrow> string" where
  "str_of (PyErr c msg) = msg"

datatype http_error = HTTPException (status_code: nat) (detail: string)

text \<open>
  The engines are opaque: \<^verbatim>\<open>detector.detect(frame)\<close> and \<^verbatim>\<open>segmenter.segment(frame)\<close>
  either raise or return a dictionary with the keys the handlers read. Detections and masks
  are never inspected by the handlers, so their types are parameters.
\<close>

record 'd detect_result =
  detections :: "'d list"
  processing_time :: real

record 'm segment_result =
  masks :: "'m list"
  num_objects :: int
  seg_processing_time :: real

type_synonym 'd detector = "image option \<Rightarrow> pyerr + 'd detect_result"
type_synonym 'm segmenter = "image option \<Rightarrow> pyerr + 'm segment_result"

text \<open>
  The two module-level globals \<^verbatim>\<open>detector\<close> and \<^verbatim>\<open>segmenter\<close>, both
  \<^verbatim>\<open>Optional[...] = None\<close> until the startup hook assigns them.
\<close>

record ('d, 'm) registry =
  detector :: "'d detector option"
  segmenter :: "'m segmenter option"

text \<open>
  A value returned by \<^verbatim>\<open>cap.get(...)\<close> is a C double. Python's \<^verbatim>\<open>int()\<close> truncates a
  finite double towards zero and raises on the others.
\<close>

datatype pyfloat = Float real | NaN | PosInf | NegInf

definition trunc :: "real \<Rightarrow> int" where
  "trunc x = (if 0 \<le> x then \<lfloor>x\<rfloor> else \<lceil>x\<rceil>)"

fun py_int :: "pyfloat \<Rightarrow> pyerr + int" where
  "py_int (Float x) = Inr (trunc x)"
| "py_int NaN = Inl (PyErr ValueError ''cannot convert float NaN to integer'')"
| "py_int PosInf = Inl (PyErr OverflowError ''cannot convert float infinity to integer'')"
| "py_int NegInf = Inl (PyErr OverflowError ''cannot convert float infinity to integer'')"

text \<open>
  An opened \<^verbatim>\<open>cv2.VideoCapture\<close>: whether the container could be opened, the three
  properties the handler queries, and the frames that \<^verbatim>\<open>read()\<close> will still deliver.
  \<^verbatim>\<open>read()\<close> returns \<^verbatim>\<open>(True, frame)\<close> and advances, or \<^verbatim>\<open>(False, None)\<close> once
  nothing more can be read.
\<close>

record capture =
  cap_opened :: bool
  cap_fps :: pyfloat
  cap_width :: pyfloat
  cap_height :: pyfloat
  cap_frames :: "image list"

definition cap_read :: "capture \<Rightarrow> (bool \<times> image option) \<times> capture" where
  "cap_read cap =
     (case cap_frames cap of
        [] \<Rightarrow> ((False, None), cap)
      | frame # rest \<Rightarrow> ((True, Some frame), cap\<lparr>cap_frames := rest\<rparr>))"

text \<open>
  The media and operating-system services the handlers call:
  \<^item> \<open>imdecode\<close>: \<^verbatim>\<open>cv2.imdecode(np.frombuffer(contents, np.uint8), cv2.IMREAD_COLOR)\<close>,
    which raises (empty buffer), returns \<^verbatim>\<open>None\<close> (undecodable) or returns an image;
  \<^item> \<open>fromhex\<close>: \<^verbatim>\<open>bytes.fromhex\<close>, which raises on a string that is not hexadecimal;
  \<^item> \<open>video_capture\<close>: \<^verbatim>\<open>cv2.VideoCapture(path)\<close> on a file with the given content;
  \<^item> \<open>open_wb\<close>: the exception \<^verbatim>\<open>open(path, "wb")\<close> raises for a path, if any;
  \<^item> \<open>object_counter\<close>: the exception the constructor \<^verbatim>\<open>ObjectCounter()\<close> raises, if any.
\<close>

record env =
  imdecode :: "bytes \<Rightarrow> pyerr + image option"
  fromhex :: "string \<Rightarrow> pyerr + bytes"
  video_capture :: "bytes \<Rightarrow> capture"
  open_wb :: "string \<Rightarrow> pyerr option"
  object_counter :: "pyerr option"

section \<open>Startup and health\<close>

text \<open>
  \<^verbatim>\<open>startup_event\<close> constructs the detector, assigns the global, constructs the segmenter
  and assigns the global. Nothing is caught: an exception raised by a constructor leaves
  the hook at that point, with the assignments made so far in place. The result pairs the
  exception that escaped the hook (if any) with the globals.
\<close>

definition startup_event ::
  "(string \<Rightarrow> pyerr + 'd detector) \<Rightarrow> (pyerr + 'm segmenter) \<Rightarrow> ('d, 'm) registry
     \<Rightarrow> pyerr option \<times> ('d, 'm) registry" where
  "startup_event YOLODetector SAM3DSegmenter reg =
     (case YOLODetector ''yolo11n'' of
        Inl e \<Rightarrow> (Some e, reg)
      | Inr d \<Rightarrow>
          (let reg1 = reg\<lparr>detector := Some d\<rparr> in
           case SAM3DSegmenter of
             Inl e \<Rightarrow> (Some e, reg1)
           | Inr s \<Rightarrow> (None, reg1\<lparr>segmenter := Some s\<rparr>)))"

record health =
  status :: string
  detector_loaded :: bool
  segmenter_loaded :: bool

definition health_check :: "('d, 'm) registry \<Rightarrow> health" where
  "health_check reg =
     \<lparr>status = ''healthy'',
      detector_loaded = (detector reg \<noteq> None),
      segmenter_loaded = (segmenter reg \<noteq> None)\<rparr>"

section \<open>Single-image handlers\<close>

record 'd detection_response =
  det_success :: bool
  det_detections :: "'d list"
  image_shape :: "nat \<times> nat"
  det_processing_time_ms :: real

record 'm segmentation_response =
  seg_success :: bool
  seg_masks :: "'m list"
  seg_num_objects :: int
  seg_processing_time_ms :: real

text \<open>
  The body of the \<^verbatim>\<open>try\<close> block of \<^verbatim>\<open>detect_fruits\<close>. The decoded image is handed to
  the detector as it is, \<^verbatim>\<open>None\<close> included; the response then reads \<^verbatim>\<open>image.shape\<close>,
  which raises \<^verbatim>\<open>AttributeError\<close> on \<^verbatim>\<open>None\<close>.
\<close>

definition no_shape :: string where
  "no_shape = CHR 0x27 # ''NoneType'' @ CHR 0x27 # '' object has no attribute ''
                @ CHR 0x27 # ''shape'' @ [CHR 0x27]"

definition detect_try :: "env \<Rightarrow> 'd detector \<Rightarrow> bytes \<Rightarrow> pyerr + 'd detection_response" where
  "detect_try env det contents =
     (case imdecode env contents of
        Inl e \<Rightarrow> Inl e
      | Inr frame \<Rightarrow>
          (case det frame of
             Inl e \<Rightarrow> Inl e
           | Inr results \<Rightarrow>
               (case frame of
                  None \<Rightarrow> Inl (PyErr AttributeError no_shape)
                | Some img \<Rightarrow>
                    Inr \<lparr>det_success = True,
                         det_detections = detections results,
                         image_shape = (cols img, rows img),
                         det_processing_time_ms = processing_time results\<rparr>)))"

definition detect_fruits ::
  "env \<Rightarrow> ('d, 'm) registry \<Rightarrow> bytes \<Rightarrow> http_error + 'd detection_response" where
  "detect_fruits env reg contents =
     (case detector reg of
        None \<Rightarrow> Inl (HTTPException 503 ''Detector not loaded'')
      | Some det \<Rightarrow>
          (case detect_try env det contents of
             Inl e \<Rightarrow> Inl (HTTPException 400 (str_of e))
           | Inr response \<Rightarrow> Inr response))"

text \<open>
  The body of the \<^verbatim>\<open>try\<close> block of \<^verbatim>\<open>segment_fruits\<close>. Unlike the detection handler
  it never touches the image itself: whatever the segmenter returns becomes the response.
\<close>

definition segment_try ::
  "env \<Rightarrow> 'm segmenter \<Rightarrow> bytes \<Rightarrow> pyerr + 'm segmentation_response" where
  "segment_try env seg contents =
     (case imdecode env contents of
        Inl e \<Rightarrow> Inl e
      | Inr frame \<Rightarrow>
          (case seg frame of
             Inl e \<Rightarrow> Inl e
           | Inr results \<Rightarrow>
               Inr \<lparr>seg_success = True,
                    seg_masks = masks results,
                    seg_num_objects = num_objects results,
                    seg_processing_time_ms = seg_processing_time results\<rparr>))"

definition segment_fruits ::
  "env \<Rightarrow> ('d, 'm) registry \<Rightarrow> bytes \<Rightarrow> http_error + 'm segmentation_response" where
  "segment_fruits env reg contents =
     (case segmenter reg of
        None \<Rightarrow> Inl (HTTPException 503 ''Segmenter not loaded'')
      | Some seg \<Rightarrow>
          (case segment_try env seg contents of
             Inl e \<Rightarrow> Inl (HTTPException 400 (str_of e))
           | Inr response \<Rightarrow> Inr response))"

section \<open>Video handler\<close>

text \<open>
  What the handler touches outside its own variables: the files on disk (path to content)
  and the video writers it has opened. A writer records the arguments it was opened with,
  the frames written to it and whether it was released.
\<close>

record video_writer =
  writer_path :: string
  fourcc :: string
  writer_fps :: int
  frame_size :: "int \<times> int"
  written :: "image list"
  released :: bool

record sys =
  files :: "string \<rightharpoonup> bytes"
  writers :: "video_writer list"

record upload =
  filename :: string
  contents :: bytes

record video_processing_response =
  success :: bool
  output_file :: string
  total_frames :: nat
  total_detections :: nat
  fps :: int
  resolution :: "int \<times> int"

definition temp_path :: "upload \<Rightarrow> string" where
  "temp_path file = ''temp_'' @ filename file"

definition output_path :: "upload \<Rightarrow> string" where
  "output_path file = ''output_'' @ filename file"

text \<open>\<^verbatim>\<open>cv2.VideoCapture(path)\<close>: a path that names no file gives a capture that is not open.\<close>

definition VideoCapture :: "env \<Rightarrow> sys \<Rightarrow> string \<Rightarrow> capture" where
  "VideoCapture env s path =
     (case files s path of
        None \<Rightarrow> \<lparr>cap_opened = False, cap_fps = Float 0, cap_width = Float 0,
                 cap_height = Float 0, cap_frames = []\<rparr>
      | Some content \<Rightarrow> video_capture env content)"

text \<open>\<^verbatim>\<open>os.remove(path)\<close> raises \<^verbatim>\<open>FileNotFoundError\<close> when the path names no file.\<close>

definition os_remove :: "string \<Rightarrow> sys \<Rightarrow> pyerr + sys" where
  "os_remove path s =
     (case files s path of
        None \<Rightarrow> Inl (PyErr FileNotFoundError path)
      | Some content \<Rightarrow> Inr (s\<lparr>files := (files s)(path := None)\<rparr>))"

text \<open>\<^verbatim>\<open>out.release()\<close> on the writer opened last.\<close>

definition release_last :: "sys \<Rightarrow> sys" where
  "release_last s =
     (case rev (writers s) of
        [] \<Rightarrow> s
      | out # earlier \<Rightarrow> s\<lparr>writers := rev earlier @ [out\<lparr>released := True\<rparr>]\<rparr>)"

text \<open>
  The \<^verbatim>\<open>while cap.isOpened()\<close> loop with its two accumulators. Each pass reads one
  frame; \<^verbatim>\<open>ret\<close> false leaves the loop; an exception of the detector leaves the whole
  \<^verbatim>\<open>try\<close> block. Nothing is ever written to the writer.
\<close>

function video_loop ::
  "'d detector \<Rightarrow> capture \<Rightarrow> nat \<Rightarrow> 'd list \<Rightarrow> pyerr + (nat \<times> 'd list)" where
  "video_loop det cap frame_count detections_list =
     (if cap_opened cap then
        (case cap_read cap of
           ((ret, frame), cap') \<Rightarrow>
             if \<not> ret then Inr (frame_count, detections_list)
             else (case det frame of
                     Inl e \<Rightarrow> Inl e
                   | Inr results \<Rightarrow>
                       video_loop det cap' (frame_count + 1)
                         (detections_list @ detections results)))
      else Inr (frame_count, detections_list))"
  by pat_completeness auto
termination
  by (relation "measure (\<lambda>(det, cap, frame_count, detections_list). length (cap_frames cap))")
     (auto simp: cap_read_def split: list.splits)

declare video_loop.simps [simp del]

text \<open>
  The body of the \<^verbatim>\<open>try\<close> block of \<^verbatim>\<open>process_video\<close>, statement by statement. The
  flag \<^verbatim>\<open>enable_segmentation\<close> is accepted and never read. \<^verbatim>\<open>os.remove(temp_path)\<close> is
  the last statement before the response is built; every exception raised earlier leaves
  the block before it.
\<close>

definition process_video_try ::
  "env \<Rightarrow> 'd detector \<Rightarrow> upload \<Rightarrow> bool \<Rightarrow> sys
     \<Rightarrow> (pyerr + video_processing_response) \<times> sys" where
  "process_video_try env det file enable_segmentation s =
     (case open_wb env (temp_path file) of
        Some e \<Rightarrow> (Inl e, s)
      | None \<Rightarrow>
          (let s1 = s\<lparr>files := (files s)(temp_path file \<mapsto> contents file)\<rparr>;
               cap = VideoCapture env s1 (temp_path file)
           in case py_int (cap_fps cap) of
                Inl e \<Rightarrow> (Inl e, s1)
              | Inr fps' \<Rightarrow>
             (case py_int (cap_width cap) of
                Inl e \<Rightarrow> (Inl e, s1)
              | Inr width \<Rightarrow>
             (case py_int (cap_height cap) of
                Inl e \<Rightarrow> (Inl e, s1)
              | Inr height \<Rightarrow>
             (let out = \<lparr>writer_path = output_path file, fourcc = ''mp4v'',
                         writer_fps = fps', frame_size = (width, height),
                         written = [], released = False\<rparr>;
                  s2 = s1\<lparr>writers := writers s1 @ [out]\<rparr>
              in case object_counter env of
                   Some e \<Rightarrow> (Inl e, s2)
                 | None \<Rightarrow>
                (case video_loop det cap 0 [] of
                   Inl e \<Rightarrow> (Inl e, s2)
                 | Inr (frame_count, detections_list) \<Rightarrow>
                     (let s3 = release_last s2 in
                      case os_remove (temp_path file) s3 of
                        Inl e \<Rightarrow> (Inl e, s3)
                      | Inr s4 \<Rightarrow>
                          (Inr \<lparr>success = True,
                                output_file = output_path file,
                                total_frames = frame_count,
                                total_detections = length detections_list,
                                fps = fps',
                                resolution = (width, height)\<rparr>, s4))))))))"

definition process_video ::
  "env \<Rightarrow> ('d, 'm) registry \<Rightarrow> upload \<Rightarrow> bool \<Rightarrow> sys
     \<Rightarrow> (http_error + video_processing_response) \<times> sys" where
  "process_video env reg file enable_segmentation s =
     (case detector reg of
        None \<Rightarrow> (Inl (HTTPException 503 ''Detector not loaded''), s)
      | Some det \<Rightarrow>
          (case process_video_try env det file enable_segmentation s of
             (Inl e, s') \<Rightarrow> (Inl (HTTPException 400 (str_of e)), s')
           | (Inr response, s') \<Rightarrow> (Inr response, s')))"

text \<open>
  The vocabulary of the statements about the video loop: the frames \<^verbatim>\<open>read()\<close>
  delivers to it, what the detector returned for one of them (nothing when it raised),
  whether it returned at all, and the detections of a list of frames in the order of the
  frames, each paired with the index of its frame.
\<close>

definition frames_read :: "capture \<Rightarrow> image list" where
  "frames_read cap = (if cap_opened cap then cap_frames cap else [])"

definition returned :: "'d detector \<Rightarrow> image \<Rightarrow> 'd list" where
  "returned det frame = (case det (Some frame) of Inl e \<Rightarrow> [] | Inr results \<Rightarrow> detections results)"

definition answered :: "'d detector \<Rightarrow> image \<Rightarrow> bool" where
  "answered det frame = (case det (Some frame) of Inl e \<Rightarrow> False | Inr results \<Rightarrow> True)"

definition indexed_detections :: "'d detector \<Rightarrow> image list \<Rightarrow> (nat \<times> 'd) list" where
  "indexed_detections det frames =
     concat (map (\<lambda>(i, frame). map (Pair i) (returned det frame)) (enumerate 0 frames))"

section \<open>Streaming endpoint\<close>

text \<open>
  What \<^verbatim>\<open>receive_json\<close> hands to the loop is any JSON value. An object is the list of its
  members as the parsed dictionary holds them (one entry per key).
\<close>

datatype json =
  JNull | JBool bool | JNum real | JStr string | JArr "json list"
  | JObj "(string \<times> json) list"

definition quoted :: "string \<Rightarrow> string" where
  "quoted k = CHR 0x27 # k @ [CHR 0x27]"

text \<open>
  \<^verbatim>\<open>data[key]\<close> with a string key: a dictionary raises \<^verbatim>\<open>KeyError\<close> for a key it does
  not hold, every other JSON value raises \<^verbatim>\<open>TypeError\<close>.
\<close>

fun subscript :: "json \<Rightarrow> string \<Rightarrow> pyerr + json" where
  "subscript (JObj members) key =
     (case map_of members key of
        None \<Rightarrow> Inl (PyErr KeyError (quoted key))
      | Some v \<Rightarrow> Inr v)"
| "subscript (JArr xs) key =
     Inl (PyErr TypeError ''list indices must be integers or slices, not str'')"
| "subscript (JStr x) key = Inl (PyErr TypeError ''string indices must be integers'')"
| "subscript data key = Inl (PyErr TypeError ''object is not subscriptable'')"

text \<open>\<^verbatim>\<open>bytes.fromhex(frame_data)\<close>: the argument has to be a string.\<close>

definition bytes_fromhex :: "env \<Rightarrow> json \<Rightarrow> pyerr + bytes" where
  "bytes_fromhex env frame_data =
     (case frame_data of
        JStr hex \<Rightarrow> fromhex env hex
      | _ \<Rightarrow> Inl (PyErr TypeError ''fromhex() argument must be str''))"

record 'd ws_response =
  ws_type :: string
  ws_detections :: "'d list"
  ws_processing_time_ms :: real

definition no_detect :: string where
  "no_detect = quoted ''NoneType'' @ '' object has no attribute '' @ quoted ''detect''"

text \<open>
  The body of the \<^verbatim>\<open>while True\<close> loop after \<^verbatim>\<open>receive_json\<close> has returned \<open>data\<close>:
  the response to send, \<open>None\<close> when the message asks for none (its type is not
  \<^verbatim>\<open>"frame"\<close>), or the exception raised. The endpoint does not test the detector global:
  calling \<^verbatim>\<open>detect\<close> on \<^verbatim>\<open>None\<close> raises \<^verbatim>\<open>AttributeError\<close>.
\<close>

definition on_message ::
  "env \<Rightarrow> ('d, 'm) registry \<Rightarrow> json \<Rightarrow> pyerr + 'd ws_response option" where
  "on_message env reg data =
     (case subscript data ''type'' of
        Inl e \<Rightarrow> Inl e
      | Inr kind \<Rightarrow>
          if kind = JStr ''frame'' then
            (case subscript data ''frame'' of
               Inl e \<Rightarrow> Inl e
             | Inr frame_data \<Rightarrow>
            (case bytes_fromhex env frame_data of
               Inl e \<Rightarrow> Inl e
             | Inr raw \<Rightarrow>
            (case imdecode env raw of
               Inl e \<Rightarrow> Inl e
             | Inr frame \<Rightarrow>
            (case detector reg of
               None \<Rightarrow> Inl (PyErr AttributeError no_detect)
             | Some det \<Rightarrow>
            (case det frame of
               Inl e \<Rightarrow> Inl e
             | Inr results \<Rightarrow>
                 Inr (Some \<lparr>ws_type = ''detection_results'',
                            ws_detections = detections results,
                            ws_processing_time_ms = processing_time results\<rparr>))))))
          else Inr None)"

text \<open>
  What happens on one connection, in the order it happens: a message handed over by
  \<^verbatim>\<open>receive_json\<close>, or a response accepted by \<^verbatim>\<open>send_json\<close>.
\<close>

datatype 'd event = Received json | Sent "'d ws_response"

definition received :: "'d event list \<Rightarrow> json list" where
  "received tr = concat (map (\<lambda>ev. case ev of Received data \<Rightarrow> [data] | Sent r \<Rightarrow> []) tr)"

definition sent :: "'d event list \<Rightarrow> 'd ws_response list" where
  "sent tr = concat (map (\<lambda>ev. case ev of Received data \<Rightarrow> [] | Sent r \<Rightarrow> [r]) tr)"

text \<open>
  One pass of the loop. The connection's behaviour is given from outside: \<open>x\<close> is what
  \<^verbatim>\<open>receive_json\<close> does this time (raise, or return a value), and \<open>send_error k\<close> is the
  exception \<^verbatim>\<open>send_json\<close> raises for the response that would be number \<open>k\<close> on this
  connection, if any. The result is the exception that left the loop, if any, with the
  events so far.
\<close>

definition receive_step ::
  "env \<Rightarrow> ('d, 'm) registry \<Rightarrow> (nat \<Rightarrow> pyerr option) \<Rightarrow> pyerr + json \<Rightarrow> 'd event list
     \<Rightarrow> pyerr option \<times> 'd event list" where
  "receive_step env reg send_error x tr =
     (case x of
        Inl e \<Rightarrow> (Some e, tr)
      | Inr data \<Rightarrow>
          (let tr1 = tr @ [Received data] in
           case on_message env reg data of
             Inl e \<Rightarrow> (Some e, tr1)
           | Inr None \<Rightarrow> (None, tr1)
           | Inr (Some response) \<Rightarrow>
               (case send_error (length (sent tr1)) of
                  Some e \<Rightarrow> (Some e, tr1)
                | None \<Rightarrow> (None, tr1 @ [Sent response]))))"

text \<open>
  The \<^verbatim>\<open>while True\<close> loop over what the connection delivers. The loop has no exit of
  its own: it ends with the first exception, and once everything delivered so far is
  handled it waits in \<^verbatim>\<open>receive_json\<close> (result \<open>None\<close>: the session is open).
\<close>

fun receive_loop ::
  "env \<Rightarrow> ('d, 'm) registry \<Rightarrow> (nat \<Rightarrow> pyerr option) \<Rightarrow> (pyerr + json) list \<Rightarrow> 'd event list
     \<Rightarrow> pyerr option \<times> 'd event list" where
  "receive_loop env reg send_error [] tr = (None, tr)"
| "receive_loop env reg send_error (x # rest) tr =
     (case receive_step env reg send_error x tr of
        (Some e, tr') \<Rightarrow> (Some e, tr')
      | (None, tr') \<Rightarrow> receive_loop env reg send_error rest tr')"

text \<open>
  Modelled from the spec: \<^verbatim>\<open>ConnectionManager\<close> (module \<^verbatim>\<open>websocket_manager\<close>, not among
  the sources). The specification describes it as the holder of the active-session set:
  a connection is registered into the set on a successful handshake and deregistered on
  disconnect. Connections are identified by a number.
\<close>

type_synonym manager = "nat set"

definition connect :: "manager \<Rightarrow> nat \<Rightarrow> manager" where
  "connect active websocket = insert websocket active"

definition disconnect :: "manager \<Rightarrow> nat \<Rightarrow> manager" where
  "disconnect active websocket = active - {websocket}"

text \<open>
  \<^verbatim>\<open>websocket_endpoint\<close>: register, run the loop, and on any exception deregister and
  return. The result is the exception that ended the session (\<open>None\<close> while it is still
  open), the manager's active set and the events on the connection.
\<close>

definition websocket_endpoint ::
  "env \<Rightarrow> ('d, 'm) registry \<Rightarrow> (nat \<Rightarrow> pyerr option) \<Rightarrow> nat \<Rightarrow> (pyerr + json) list \<Rightarrow> manager
     \<Rightarrow> pyerr option \<times> manager \<times> 'd event list" where
  "websocket_endpoint env reg send_error websocket inbound active =
     (let active1 = connect active websocket in
      case receive_loop env reg send_error inbound [] of
        (None, tr) \<Rightarrow> (None, active1, tr)
      | (Some e, tr) \<Rightarrow> (Some e, disconnect active1 websocket, tr))"


text \<open>
  A message that \<^verbatim>\<open>data["type"]\<close> cannot be read from: a JSON value that is not an
  object, or an object without the member \<^verbatim>\<open>type\<close>.
\<close>

definition lacks_type :: "json \<Rightarrow> bool" where
  "lacks_type data =
     (case data of JObj members \<Rightarrow> map_of members ''type'' = None | _ \<Rightarrow> True)"

text \<open>
  The responses a message calls for (one or none), as a list: the response the loop body
  computes for it, nothing when the body raises or the message asks for none.
\<close>

definition reply :: "env \<Rightarrow> ('d, 'm) registry \<Rightarrow> json \<Rightarrow> 'd ws_response list" where
  "reply env reg data = (case on_message env reg data of Inr (Some r) \<Rightarrow> [r] | _ \<Rightarrow> [])"

section \<open>Concrete collaborators used in the examples\<close>

definition vga :: "bytes \<Rightarrow> image" where
  "vga px = \<lparr>rows = 480, cols = 640, pixels = px\<rparr>"

text \<open>
  A decoder that raises on an empty buffer, decodes a buffer starting with 255 (the rest
  being the pixels) and returns \<^verbatim>\<open>None\<close> for every other; a hex parser that knows
  three strings; a container reader that delivers one frame per byte \<open>b\<close> of the file,
  with \<open>b\<close> pixels, at 29.97 frames per second.
\<close>

definition demo_env :: env where
  "demo_env =
     \<lparr>imdecode = (\<lambda>raw. case raw of
                     [] \<Rightarrow> Inl (PyErr CvError ''empty buffer'')
                   | b # bs \<Rightarrow> if b = 255 then Inr (Some (vga bs)) else Inr None),
      fromhex = (\<lambda>hex. if hex = ''ff01'' then Inr [255, 1]
                  else if hex = ''ff0102'' then Inr [255, 1, 2]
                  else if hex = ''00'' then Inr [0]
                  else Inl (PyErr ValueError ''non-hexadecimal number found in fromhex() arg'')),
      video_capture = (\<lambda>content.
                  \<lparr>cap_opened = (content \<noteq> []), cap_fps = Float (2997 / 100),
                   cap_width = Float 640, cap_height = Float 480,
                   cap_frames = map (\<lambda>b. vga (replicate b 1)) content\<rparr>),
      open_wb = (\<lambda>path. None),
      object_counter = None\<rparr>"

text \<open>
  A detector that raises on an absent frame and on a frame without pixels, and otherwise
  reports one fruit per pixel; a segmenter that returns an empty result for whatever it is
  given, an absent frame included.
\<close>

definition fruit_detector :: "string detector" where
  "fruit_detector frame =
     (case frame of
        None \<Rightarrow> Inl (PyErr CvError ''no frame'')
      | Some img \<Rightarrow>
          (case pixels img of
             [] \<Rightarrow> Inl (PyErr RuntimeError ''inference failed'')
           | p # ps \<Rightarrow>
               Inr \<lparr>detections = map (\<lambda>p. ''apple'') (pixels img),
                    processing_time = 1\<rparr>))"

definition lenient_segmenter :: "nat segmenter" where
  "lenient_segmenter frame = Inr \<lparr>masks = [], num_objects = 0, seg_processing_time = 0\<rparr>"

definition demo_registry :: "(string, nat) registry" where
  "demo_registry = \<lparr>detector = Some fruit_detector, segmenter = Some lenient_segmenter\<rparr>"

text \<open>
  A detector that returns an empty result for whatever it is given, an absent frame
  included, and the globals with it loaded.
\<close>

definition lenient_detector :: "string detector" where
  "lenient_detector frame = Inr \<lparr>detections = [], processing_time = 0\<rparr>"

definition lenient_registry :: "(string, nat) registry" where
  "lenient_registry = \<lparr>detector = Some lenient_detector, segmenter = Some lenient_segmenter\<rparr>"

text \<open>The globals as the module leaves them at import time.\<close>

definition initial_registry :: "('d, 'm) registry" where
  "initial_registry = \<lparr>detector = None, segmenter = None\<rparr>"

definition empty_sys :: sys where
  "empty_sys = \<lparr>files = Map.empty, writers = []\<rparr>"

definition frame_message :: "string \<Rightarrow> json" where
  "frame_message hex = JObj [(''type'', JStr ''frame''), (''frame'', JStr hex)]"

definition no_send_error :: "nat \<Rightarrow> pyerr option" where
  "no_send_error k = None"

definition clip :: "bytes \<Rightarrow> upload" where
  "clip content = \<lparr>filename = ''a.mp4'', contents = content\<rparr>"

section \<open>Facts about the video loop and the files\<close>

lemma video_loop_closed: "\<not> cap_opened cap \<Longrightarrow> video_loop det cap n ds = Inr (n, ds)"
  by (subst video_loop.simps) simp

lemma video_loop_end: "cap_frames cap = [] \<Longrightarrow> video_loop det cap n ds = Inr (n, ds)"
  by (subst video_loop.simps) (simp add: cap_read_def)

lemma video_loop_frame:
  "cap_opened cap \<Longrightarrow> cap_frames cap = frame # rest \<Longrightarrow>
   video_loop det cap n ds =
     (case det (Some frame) of
        Inl e \<Rightarrow> Inl e
      | Inr results \<Rightarrow>
          video_loop det (cap\<lparr>cap_frames := rest\<rparr>) (n + 1) (ds @ detections results))"
  by (subst video_loop.simps) (simp add: cap_read_def)

text \<open>
  When the loop ends normally it has counted every frame delivered, the detector has
  answered for each of them, and the accumulator holds their detections in frame order.
\<close>

lemma video_loop_accumulates:
  "video_loop det cap n ds = Inr (n', ds') \<Longrightarrow>
     n' = n + length (frames_read cap)
     \<and> ds' = ds @ concat (map (returned det) (frames_read cap))
     \<and> list_all (answered det) (frames_read cap)"
proof (induction "cap_frames cap" arbitrary: cap n ds)
  case Nil
  then show ?case
    using video_loop_end [of cap det n ds] by (simp add: frames_read_def)
next
  case (Cons frame rest)
  show ?case
  proof (cases "cap_opened cap")
    case False
    with Cons.prems show ?thesis
      by (simp add: video_loop_closed frames_read_def)
  next
    case True
    from Cons.hyps(2) have fr: "cap_frames cap = frame # rest" by simp
    from Cons.prems obtain results where
      det: "det (Some frame) = Inr results" and
      rec: "video_loop det (cap\<lparr>cap_frames := rest\<rparr>) (n + 1) (ds @ detections results)
              = Inr (n', ds')"
      by (auto simp: video_loop_frame [OF True fr] split: sum.splits)
    have "rest = cap_frames (cap\<lparr>cap_frames := rest\<rparr>)" by simp
    from Cons.hyps(1) [OF this rec] True fr det show ?thesis
      by (simp add: frames_read_def returned_def answered_def)
  qed
qed

lemma indexed_from:
  "map snd (concat (map (\<lambda>(i, frame). map (Pair i) (returned det frame)) (enumerate k frames)))
     = concat (map (returned det) frames)"
  by (induction frames arbitrary: k) (simp_all add: comp_def)

lemma indexed_lower:
  "i \<in> fst ` set (concat (map (\<lambda>(i, frame). map (Pair i) (returned det frame))
                            (enumerate k frames)))
     \<Longrightarrow> k \<le> i"
proof (induction frames arbitrary: k)
  case Nil
  then show ?case by simp
next
  case (Cons frame frames)
  from Cons.prems consider "i = k"
    | "i \<in> fst ` set (concat (map (\<lambda>(i, frame). map (Pair i) (returned det frame))
                                (enumerate (Suc k) frames)))"
    by force
  then show ?case
  proof cases
    case 1
    then show ?thesis by simp
  next
    case 2
    from Cons.IH [OF this] show ?thesis by simp
  qed
qed

lemma indexed_sorted:
  "sorted (map fst (concat (map (\<lambda>(i, frame). map (Pair i) (returned det frame))
                                (enumerate k frames))))"
proof (induction frames arbitrary: k)
  case Nil
  then show ?case by simp
next
  case (Cons frame frames)
  have "sorted (map fst (map (Pair k) (returned det frame)))"
    by (simp add: comp_def map_replicate_const)
  moreover have "\<forall>x\<in>set (map fst (map (Pair k) (returned det frame))).
          \<forall>y\<in>set (map fst (concat (map (\<lambda>(i, frame). map (Pair i) (returned det frame))
                                          (enumerate (Suc k) frames)))). x \<le> y"
    using indexed_lower [of _ det "Suc k" frames] by fastforce
  ultimately show ?case
    using Cons.IH [of "Suc k"] by (simp add: sorted_append del: map_map)
qed

lemma length_concat_returned:
  "length (concat (map (returned det) frames))
     = sum_list (map (\<lambda>frame. length (returned det frame)) frames)"
  by (simp add: length_concat comp_def)

lemma files_release_last: "files (release_last s) = files s"
  by (simp add: release_last_def split: list.splits)

lemma writers_release_last:
  "writers (release_last (s\<lparr>writers := ws @ [out]\<rparr>)) = ws @ [out\<lparr>released := True\<rparr>]"
  by (simp add: release_last_def)

lemma VideoCapture_written:
  "VideoCapture env (s\<lparr>files := (files s)(path \<mapsto> content)\<rparr>) path = video_capture env content"
  by (simp add: VideoCapture_def)

text \<open>Everything a success response of the video handler tells about the run.\<close>

lemma process_video_try_success:
  assumes "process_video_try env det file seg s = (Inr response, s')"
  shows "\<exists>rate width height frame_count detections_list.
           py_int (cap_fps (video_capture env (contents file))) = Inr rate
         \<and> py_int (cap_width (video_capture env (contents file))) = Inr width
         \<and> py_int (cap_height (video_capture env (contents file))) = Inr height
         \<and> video_loop det (video_capture env (contents file)) 0 []
             = Inr (frame_count, detections_list)
         \<and> response = \<lparr>success = True, output_file = output_path file,
                         total_frames = frame_count,
                         total_detections = length detections_list,
                         fps = rate, resolution = (width, height)\<rparr>
         \<and> files s' = (files s)(temp_path file := None)
         \<and> writers s' = writers s @ [\<lparr>writer_path = output_path file, fourcc = ''mp4v'',
                                      writer_fps = rate, frame_size = (width, height),
                                      written = [], released = True\<rparr>]"
  using assms
  unfolding process_video_try_def Let_def VideoCapture_written
  by (auto simp: os_remove_def files_release_last writers_release_last
           split: option.splits sum.splits prod.splits)

lemma process_video_success:
  assumes "process_video env reg file seg s = (Inr response, s')"
  shows "\<exists>det. detector reg = Some det
               \<and> process_video_try env det file seg s = (Inr response, s')"
  using assms
  by (auto simp: process_video_def split: option.splits sum.splits prod.splits)

text \<open>
  The two exits of the handler once the upload is on disk: a success response comes with
  the temporary file removed, a 400 response comes with the temporary file still there.
\<close>

lemma temp_file_removed_on_success:
  assumes "process_video env reg file seg s = (Inr response, s')"
  shows "files s' (temp_path file) = None"
proof -
  from process_video_success [OF assms] obtain det where
    "detector reg = Some det" and
    body: "process_video_try env det file seg s = (Inr response, s')" by blast
  from process_video_try_success [OF body] show ?thesis by auto
qed

lemma temp_file_kept_on_failure:
  assumes "process_video env reg file seg s = (Inl (HTTPException 400 msg), s')"
      and "open_wb env (temp_path file) = None"
  shows "files s' (temp_path file) = Some (contents file)"
  using assms
  unfolding process_video_def process_video_try_def Let_def VideoCapture_written
  by (auto simp: os_remove_def files_release_last
           split: option.splits sum.splits prod.splits)

lemmas demo_defs =
  process_video_def process_video_try_def demo_env_def demo_registry_def empty_sys_def
  temp_path_def output_path_def VideoCapture_def trunc_def vga_def fruit_detector_def
  os_remove_def release_last_def clip_def lenient_segmenter_def

lemma trunc_towards_zero:
  "\<bar>real_of_int (trunc x)\<bar> \<le> \<bar>x\<bar> \<and> \<bar>x - real_of_int (trunc x)\<bar> < 1"
  unfolding trunc_def by (cases "0 \<le> x") (simp_all, linarith+)

lemma trunc_exact_iff: "(real_of_int (trunc x) = x) = (x \<in> \<int>)"
proof
  assume "real_of_int (trunc x) = x"
  then have "x = real_of_int (trunc x)" by simp
  then show "x \<in> \<int>" by (metis Ints_of_int)
next
  assume "x \<in> \<int>"
  then obtain k where "x = real_of_int k" by (auto elim: Ints_cases)
  then show "real_of_int (trunc x) = x" by (simp add: trunc_def)
qed

section \<open>Readiness check of the single-image handlers\<close>

text \<open>
  Claim C3. While the engine a handler needs is absent, the handler answers 503, whatever
  was uploaded and whatever the decoder would have made of it: \<^verbatim>\<open>/detect\<close> when the
  detector global is \<^verbatim>\<open>None\<close>, \<^verbatim>\<open>/segment\<close> when the segmenter global is \<^verbatim>\<open>None\<close>.
\<close>

theorem unavailable_while_engine_absent:
  "detect_fruits env (reg\<lparr>detector := None\<rparr>) payload
     = Inl (HTTPException 503 ''Detector not loaded'')
   \<and> segment_fruits env (reg\<lparr>segmenter := None\<rparr>) payload
     = Inl (HTTPException 503 ''Segmenter not loaded'')"
  by (simp add: detect_fruits_def segment_fruits_def)

section \<open>Undecodable images\<close>

text \<open>
  Neither handler tests what the decoder returned. With the bytes \<open>[0]\<close>, which the
  example decoder cannot decode, and a segmenter that tolerates an absent frame,
  \<^verbatim>\<open>/segment\<close> answers with a success response.
\<close>

theorem segment_undecodable_counterexample:
  "imdecode demo_env [0] = Inr None
   \<and> segment_fruits demo_env demo_registry [0]
       = Inr \<lparr>seg_success = True, seg_masks = [], seg_num_objects = 0,
              seg_processing_time_ms = 0\<rparr>"
  by (simp add: segment_fruits_def segment_try_def demo_defs)

text \<open>
  Claim C4, as amended. Let both engines be loaded and let the decoder raise or return
  \<^verbatim>\<open>None\<close> for the uploaded bytes. Then \<^verbatim>\<open>/detect\<close> answers 400 with a message (the
  detector's exception, or the \<^verbatim>\<open>AttributeError\<close> of reading the shape of \<^verbatim>\<open>None\<close>).
  \<^verbatim>\<open>/segment\<close> answers 400 with the message of the decoder's exception when the decoder
  raised; when the decoder returned \<^verbatim>\<open>None\<close> it answers what the segmenter makes of the
  absent frame: 400 with the segmenter's message if the segmenter raises, and a success
  response built from the segmenter's result if it returns one.
\<close>

theorem undecodable_image_handling:
  assumes "detector reg = Some det" and "segmenter reg = Some seg"
      and "imdecode env payload = Inl e \<or> imdecode env payload = Inr None"
  shows "(\<exists>msg. detect_fruits env reg payload = Inl (HTTPException 400 msg))
       \<and> (imdecode env payload = Inl e \<longrightarrow>
            segment_fruits env reg payload = Inl (HTTPException 400 (str_of e)))
       \<and> (imdecode env payload = Inr None \<longrightarrow>
            segment_fruits env reg payload
              = (case seg None of
                   Inl e' \<Rightarrow> Inl (HTTPException 400 (str_of e'))
                 | Inr results \<Rightarrow>
                     Inr \<lparr>seg_success = True, seg_masks = masks results,
                          seg_num_objects = num_objects results,
                          seg_processing_time_ms = seg_processing_time results\<rparr>))"
proof -
  have d: "\<exists>msg. detect_fruits env reg payload = Inl (HTTPException 400 msg)"
    using assms by (auto simp: detect_fruits_def detect_try_def split: sum.splits)
  have s1: "imdecode env payload = Inl e \<longrightarrow>
      segment_fruits env reg payload = Inl (HTTPException 400 (str_of e))"
    using assms(2) by (simp add: segment_fruits_def segment_try_def)
  have s2: "imdecode env payload = Inr None \<longrightarrow>
      segment_fruits env reg payload
        = (case seg None of
             Inl e' \<Rightarrow> Inl (HTTPException 400 (str_of e'))
           | Inr results \<Rightarrow>
               Inr \<lparr>seg_success = True, seg_masks = masks results,
                    seg_num_objects = num_objects results,
                    seg_processing_time_ms = seg_processing_time results\<rparr>)"
    using assms(2) by (simp add: segment_fruits_def segment_try_def split: sum.splits)
  from d s1 s2 show ?thesis by blast
qed

theorem undecodable_image_handling_witness:
  "detector demo_registry = Some fruit_detector
   \<and> segmenter demo_registry = Some lenient_segmenter
   \<and> imdecode demo_env [0] = Inr None
   \<and> (\<exists>msg. detect_fruits demo_env demo_registry [0] = Inl (HTTPException 400 msg))
   \<and> detect_fruits demo_env demo_registry [0] = Inl (HTTPException 400 ''no frame'')"
proof -
  have h1: "detector demo_registry = Some fruit_detector"
    and h2: "segmenter demo_registry = Some lenient_segmenter"
    by (simp_all add: demo_registry_def)
  have h3: "imdecode demo_env [0] = Inl e \<or> imdecode demo_env [0] = Inr None" for e
    by (simp add: demo_env_def)
  have h4: "imdecode demo_env [0] = Inr None"
    by (simp add: demo_env_def)
  have h5: "detect_fruits demo_env demo_registry [0] = Inl (HTTPException 400 ''no frame'')"
    by (simp add: detect_fruits_def detect_try_def demo_defs)
  from undecodable_image_handling [OF h1 h2 h3] h1 h2 h4 h5 show ?thesis by blast
qed

section \<open>Startup\<close>

text \<open>
  The startup hook has no handler for a failing constructor: when the detector cannot be
  built, the exception leaves \<^verbatim>\<open>startup_event\<close>.
\<close>

theorem startup_failure_counterexample:
  "fst (startup_event (\<lambda>name. Inl (PyErr RuntimeError ''weights not found''))
          (Inr lenient_segmenter) (initial_registry :: (string, nat) registry))
     = Some (PyErr RuntimeError ''weights not found'')"
  by (simp add: startup_event_def)

text \<open>
  Claim C5, as amended. If the construction of an engine fails during startup, the
  exception is not caught: it leaves the startup hook. The globals keep what was assigned
  before: after a detector failure both handles are absent, after a segmenter failure the
  detector is loaded and the segmenter is absent. The health report shows an absent engine
  as not loaded, and a handler run against those globals answers 503 for an absent engine.
\<close>

theorem startup_failure_leaves_engines_absent:
  "(YOLODetector ''yolo11n'' = Inl e \<longrightarrow>
      (case startup_event YOLODetector SAM3DSegmenter initial_registry of
         (raised, reg') \<Rightarrow>
             raised = Some e
           \<and> health_check reg' = \<lparr>status = ''healthy'', detector_loaded = False,
                                  segmenter_loaded = False\<rparr>
           \<and> detect_fruits env reg' payload = Inl (HTTPException 503 ''Detector not loaded'')
           \<and> segment_fruits env reg' payload
               = Inl (HTTPException 503 ''Segmenter not loaded'')
           \<and> fst (process_video env reg' video seg s)
               = Inl (HTTPException 503 ''Detector not loaded'')))
   \<and> (YOLODetector ''yolo11n'' = Inr d \<and> SAM3DSegmenter = Inl e \<longrightarrow>
      (case startup_event YOLODetector SAM3DSegmenter initial_registry of
         (raised, reg') \<Rightarrow>
             raised = Some e
           \<and> health_check reg' = \<lparr>status = ''healthy'', detector_loaded = True,
                                  segmenter_loaded = False\<rparr>
           \<and> segment_fruits env reg' payload
               = Inl (HTTPException 503 ''Segmenter not loaded'')))"
  by (simp add: startup_event_def initial_registry_def health_check_def detect_fruits_def
        segment_fruits_def process_video_def)

theorem startup_failure_leaves_engines_absent_witness:
  "(case startup_event (\<lambda>name. Inl (PyErr RuntimeError ''weights not found''))
           (Inr lenient_segmenter) (initial_registry :: (string, nat) registry) of
      (raised, reg') \<Rightarrow>
          raised = Some (PyErr RuntimeError ''weights not found'')
        \<and> detector_loaded (health_check reg') = False
        \<and> detect_fruits demo_env reg' [255, 1] = Inl (HTTPException 503 ''Detector not loaded''))"
  using startup_failure_leaves_engines_absent
    [where YOLODetector = "\<lambda>name. Inl (PyErr RuntimeError ''weights not found'')"
       and e = "PyErr RuntimeError ''weights not found''"
       and SAM3DSegmenter = "Inr lenient_segmenter"
       and env = demo_env and payload = "[255, 1]" and video = "clip []" and seg = False
       and s = empty_sys and d = fruit_detector]
  by (simp split: prod.splits)

section \<open>Video handler: the temporary file\<close>

text \<open>
  Claim C1. The claim is that the temporary input file is gone when the handler returns,
  on the success path and on every failure path. The handler removes the file as the last
  statement of its \<^verbatim>\<open>try\<close> block only (\<open>temp_file_removed_on_success\<close>), so a failure
  after the upload was written leaves it behind (\<open>temp_file_kept_on_failure\<close>). Here the
  detector raises on the second of three frames of the upload \<^verbatim>\<open>a.mp4\<close>: the handler
  answers 400, and \<^verbatim>\<open>temp_a.mp4\<close> is on disk with the uploaded content; the writer was
  never released either.
\<close>

theorem temp_file_left_after_engine_failure:
  "process_video demo_env demo_registry (clip [2, 0, 1]) False empty_sys
     = (Inl (HTTPException 400 ''inference failed''),
        \<lparr>files = [''temp_a.mp4'' \<mapsto> [2, 0, 1]],
         writers = [\<lparr>writer_path = ''output_a.mp4'', fourcc = ''mp4v'', writer_fps = 29,
                     frame_size = (640, 480), written = [], released = False\<rparr>]\<rparr>)"
  by (simp add: demo_defs video_loop_frame video_loop_end eval_nat_numeral)

section \<open>Video handler: totals and order\<close>

text \<open>
  Claim C2. When the video handler returns a success response, the detector was loaded
  and, for the frames the reader delivered from the uploaded container:
  the detector answered for every one of them; \<^verbatim>\<open>total_frames\<close> is their number;
  \<^verbatim>\<open>total_detections\<close> is the sum over them of the number of detections the detector
  returned; and the list the loop accumulated consists of these detections in
  non-decreasing order of frame index (it is the list of index-tagged detections, whose
  indices are sorted, with the tags dropped).
\<close>

theorem video_totals:
  assumes "process_video env reg file seg s = (Inr response, s')"
  shows "case detector reg of
           None \<Rightarrow> False
         | Some det \<Rightarrow>
             (let cap = video_capture env (contents file); frames = frames_read cap in
                list_all (answered det) frames
              \<and> total_frames response = length frames
              \<and> total_detections response
                  = sum_list (map (\<lambda>frame. length (returned det frame)) frames)
              \<and> video_loop det cap 0 []
                  = Inr (length frames, map snd (indexed_detections det frames))
              \<and> sorted (map fst (indexed_detections det frames)))"
proof -
  from process_video_success [OF assms] obtain det where
    det: "detector reg = Some det" and
    body: "process_video_try env det file seg s = (Inr response, s')"
    by blast
  let ?cap = "video_capture env (contents file)"
  from process_video_try_success [OF body] obtain frame_count detections_list where
    loop: "video_loop det ?cap 0 [] = Inr (frame_count, detections_list)" and
    tf: "total_frames response = frame_count" and
    td: "total_detections response = length detections_list"
    by auto
  from video_loop_accumulates [OF loop] have
    n: "frame_count = length (frames_read ?cap)" and
    ds: "detections_list = concat (map (returned det) (frames_read ?cap))" and
    ans: "list_all (answered det) (frames_read ?cap)"
    by simp_all
  have idx: "map snd (indexed_detections det (frames_read ?cap)) = detections_list"
    unfolding indexed_detections_def ds by (rule indexed_from)
  have srt: "sorted (map fst (indexed_detections det (frames_read ?cap)))"
    unfolding indexed_detections_def by (rule indexed_sorted)
  have len: "length detections_list
      = sum_list (map (\<lambda>frame. length (returned det frame)) (frames_read ?cap))"
    unfolding ds by (rule length_concat_returned)
  show ?thesis
    using det ans tf td n idx srt len loop by (simp add: Let_def)
qed

text \<open>
  A container of three frames with 2, 1 and 3 pixels, hence 2, 1 and 3 detections:
  three frames, six detections, tagged 0, 0, 1, 2, 2, 2.
\<close>

theorem video_totals_witness:
  "fst (process_video demo_env demo_registry (clip [2, 1, 3]) False empty_sys)
     = Inr \<lparr>success = True, output_file = ''output_a.mp4'', total_frames = 3,
            total_detections = 6, fps = 29, resolution = (640, 480)\<rparr>
   \<and> length (frames_read (video_capture demo_env [2, 1, 3])) = 3
   \<and> sum_list (map (\<lambda>frame. length (returned fruit_detector frame))
                 (frames_read (video_capture demo_env [2, 1, 3]))) = 6
   \<and> map fst (indexed_detections fruit_detector
                 (frames_read (video_capture demo_env [2, 1, 3]))) = [0, 0, 1, 2, 2, 2]
   \<and> sorted (map fst (indexed_detections fruit_detector
                 (frames_read (video_capture demo_env [2, 1, 3]))))"
proof -
  have run: "process_video demo_env demo_registry (clip [2, 1, 3]) False empty_sys
     = (Inr \<lparr>success = True, output_file = ''output_a.mp4'', total_frames = 3,
             total_detections = 6, fps = 29, resolution = (640, 480)\<rparr>,
        \<lparr>files = Map.empty,
         writers = [\<lparr>writer_path = ''output_a.mp4'', fourcc = ''mp4v'', writer_fps = 29,
                     frame_size = (640, 480), written = [], released = True\<rparr>]\<rparr>)"
    by (simp add: demo_defs video_loop_frame video_loop_end eval_nat_numeral)
  have tags: "map fst (indexed_detections fruit_detector
                 (frames_read (video_capture demo_env [2, 1, 3]))) = [0, 0, 1, 2, 2, 2]"
    by (simp add: indexed_detections_def frames_read_def returned_def enumerate_eq_zip
          demo_defs eval_nat_numeral upt_rec)
  from video_totals [OF run] run tags show ?thesis
    by (simp add: demo_registry_def clip_def Let_def)
qed

section \<open>Video handler: frame rate and resolution\<close>

text \<open>
  Claim C10. When the video handler returns a success response, the three properties read
  from the container were finite numbers, and the response reports their truncations
  towards zero: \<^verbatim>\<open>fps\<close> is the truncated frame rate and \<^verbatim>\<open>resolution\<close> the truncated
  width and height. The writer was opened with the same three integers. The reported rate
  equals the container's rate only when that rate is an integer, so a fractional rate is
  never reported exactly.
\<close>

theorem video_metadata_truncated:
  assumes "process_video env reg file seg s = (Inr response, s')"
  shows "case (cap_fps (video_capture env (contents file)),
               cap_width (video_capture env (contents file)),
               cap_height (video_capture env (contents file))) of
           (Float rate, Float w, Float h) \<Rightarrow>
               fps response = trunc rate
             \<and> resolution response = (trunc w, trunc h)
             \<and> writers s' = writers s @
                  [\<lparr>writer_path = output_path file, fourcc = ''mp4v'',
                    writer_fps = trunc rate, frame_size = (trunc w, trunc h),
                    written = [], released = True\<rparr>]
             \<and> (real_of_int (fps response) = rate) = (rate \<in> \<int>)
         | _ \<Rightarrow> False"
proof -
  from process_video_success [OF assms] obtain det where
    det: "detector reg = Some det" and
    body: "process_video_try env det file seg s = (Inr response, s')"
    by blast
  let ?cap = "video_capture env (contents file)"
  from process_video_try_success [OF body] obtain r w h where
    r: "py_int (cap_fps ?cap) = Inr r" and
    w: "py_int (cap_width ?cap) = Inr w" and
    h: "py_int (cap_height ?cap) = Inr h" and
    resp: "fps response = r" "resolution response = (w, h)" and
    wr: "writers s' = writers s @ [\<lparr>writer_path = output_path file, fourcc = ''mp4v'',
                                   writer_fps = r, frame_size = (w, h),
                                   written = [], released = True\<rparr>]"
    by auto
  from r obtain xr where xr: "cap_fps ?cap = Float xr" "r = trunc xr"
    by (cases "cap_fps ?cap") auto
  from w obtain xw where xw: "cap_width ?cap = Float xw" "w = trunc xw"
    by (cases "cap_width ?cap") auto
  from h obtain xh where xh: "cap_height ?cap = Float xh" "h = trunc xh"
    by (cases "cap_height ?cap") auto
  show ?thesis
    using xr xw xh resp wr by (simp add: trunc_exact_iff)
qed

text \<open>The example container runs at 29.97 frames per second; the response says 29.\<close>

theorem video_metadata_truncated_witness:
  "cap_fps (video_capture demo_env [2, 1, 3]) = Float (2997 / 100)
   \<and> trunc (2997 / 100) = 29
   \<and> fst (process_video demo_env demo_registry (clip [2, 1, 3]) False empty_sys)
     = Inr \<lparr>success = True, output_file = ''output_a.mp4'', total_frames = 3,
            total_detections = 6, fps = 29, resolution = (640, 480)\<rparr>"
proof -
  have run: "process_video demo_env demo_registry (clip [2, 1, 3]) False empty_sys
     = (Inr \<lparr>success = True, output_file = ''output_a.mp4'', total_frames = 3,
             total_detections = 6, fps = 29, resolution = (640, 480)\<rparr>,
        \<lparr>files = Map.empty,
         writers = [\<lparr>writer_path = ''output_a.mp4'', fourcc = ''mp4v'', writer_fps = 29,
                     frame_size = (640, 480), written = [], released = True\<rparr>]\<rparr>)"
    by (simp add: demo_defs video_loop_frame video_loop_end eval_nat_numeral)
  have rate: "cap_fps (video_capture demo_env [2, 1, 3]) = Float (2997 / 100)"
    by (simp add: demo_env_def)
  from video_metadata_truncated [OF run] run rate show ?thesis
    by (simp add: clip_def demo_env_def)
qed

section \<open>Video handler: the name of the temporary file\<close>

text \<open>
  The temporary path is derived from the client's file name alone. Two different uploads
  that carry the same file name get the same temporary path.
\<close>

theorem temp_path_shared_counterexample:
  "\<lparr>filename = ''clip.mp4'', contents = [1]\<rparr> \<noteq> \<lparr>filename = ''clip.mp4'', contents = [2]\<rparr>
   \<and> temp_path \<lparr>filename = ''clip.mp4'', contents = [1]\<rparr>
       = temp_path \<lparr>filename = ''clip.mp4'', contents = [2]\<rparr>"
  by (simp add: temp_path_def)

text \<open>
  Claim C9, as amended. The upload is persisted under the path \<^verbatim>\<open>temp_\<close> followed by
  the client-supplied file name. Two requests get distinct temporary paths exactly when
  their file names differ; requests with the same file name share the path.
\<close>

theorem temp_path_distinct_iff_filenames_differ:
  "temp_path file = ''temp_'' @ filename file
   \<and> (temp_path file = temp_path file') = (filename file = filename file')"
  by (simp add: temp_path_def)

section \<open>Facts about the streaming loop\<close>

lemma sent_append: "sent (tr @ tr') = sent tr @ sent tr'"
  by (simp add: sent_def)

lemma sent_simps:
  "sent [] = []" "sent (Received d # tr) = sent tr" "sent (Sent r # tr) = r # sent tr"
  by (simp_all add: sent_def)


text \<open>The loop over a longer delivery goes on from where the loop over its start ended.\<close>

lemma receive_loop_append:
  "receive_loop env reg se (xs @ ys) tr =
     (case receive_loop env reg se xs tr of
        (None, tr') \<Rightarrow> receive_loop env reg se ys tr'
      | (Some e, tr') \<Rightarrow> (Some e, tr'))"
  by (induction xs arbitrary: tr) (auto split: prod.splits option.splits)




text \<open>
  A pass ends the session exactly when \<^verbatim>\<open>receive_json\<close> raised, the body raised on the
  message, or \<^verbatim>\<open>send_json\<close> raised on the response; the message, if one was received, is
  the last event.
\<close>

lemma receive_step_raises:
  "(receive_step env reg se x tr = (Some e, tr')) =
     ((x = Inl e \<and> tr' = tr)
      \<or> (\<exists>d. x = Inr d \<and> tr' = tr @ [Received d]
             \<and> (on_message env reg d = Inl e
                 \<or> (\<exists>r. on_message env reg d = Inr (Some r)
                        \<and> se (length (sent tr)) = Some e))))"
  by (auto simp: receive_step_def Let_def sent_append sent_simps
           split: sum.splits option.splits)

text \<open>With no detector loaded, every message of type \<^verbatim>\<open>"frame"\<close> makes the body raise.\<close>

lemma on_message_engine_absent:
  assumes "detector reg = None" and "subscript data ''type'' = Inr (JStr ''frame'')"
  shows "\<exists>e. on_message env reg data = Inl e"
  using assms by (auto simp: on_message_def split: sum.splits)

text \<open>A frame whose payload the hex parser rejects makes the body raise that exception.\<close>

lemma on_message_malformed_payload:
  assumes "fromhex env hex = Inl e"
  shows "on_message env reg (frame_message hex) = Inl e"
  using assms by (simp add: on_message_def frame_message_def bytes_fromhex_def)



lemmas ws_defs =
  websocket_endpoint_def receive_step_def on_message_def bytes_fromhex_def frame_message_def
  connect_def disconnect_def no_send_error_def sent_def received_def reply_def quoted_def
  demo_env_def demo_registry_def fruit_detector_def vga_def lenient_detector_def
  lenient_registry_def

section \<open>Streaming: messages that are not frames\<close>

text \<open>
  A message is tested with \<^verbatim>\<open>data["type"]\<close>. A message that has no such member, here the
  object with the single member \<^verbatim>\<open>event\<close>, raises \<^verbatim>\<open>KeyError\<close> in the loop: the
  session ends, the connection is deregistered, and the frame that follows is not read.
\<close>

theorem untyped_message_counterexample:
  "websocket_endpoint demo_env demo_registry no_send_error 7
       [Inr (JObj [(''event'', JStr ''ping'')]), Inr (frame_message ''ff01'')] {3}
     = (Some (PyErr KeyError (quoted ''type'')), {3},
        [Received (JObj [(''event'', JStr ''ping'')])])"
  by (simp add: ws_defs)

text \<open>
  Claim C6, as amended. For every inbound message that is a JSON object with a member
  \<^verbatim>\<open>type\<close> whose value is not \<^verbatim>\<open>"frame"\<close>, the pass raises nothing and sends nothing:
  the message is recorded as received, the loop goes on with the next message, and a
  session that has received only this message is open and registered. For every inbound
  message without a member \<^verbatim>\<open>type\<close>, and for every one that is not a JSON object,
  reading \<^verbatim>\<open>data["type"]\<close> raises: the pass ends the loop with that exception right
  after the message was received, and the endpoint returns with the connection
  deregistered and without reading what follows.
\<close>

theorem non_frame_message_skipped:
  "(subscript data ''type'' = Inr kind \<and> kind \<noteq> JStr ''frame'' \<longrightarrow>
        receive_step env reg send_error (Inr data) tr = (None, tr @ [Received data])
      \<and> receive_loop env reg send_error (Inr data # rest) tr
          = receive_loop env reg send_error rest (tr @ [Received data])
      \<and> websocket_endpoint env reg send_error websocket [Inr data] active
          = (None, insert websocket active, [Received data]))
   \<and> (lacks_type data \<longrightarrow>
        (\<exists>e. subscript data ''type'' = Inl e
           \<and> receive_step env reg send_error (Inr data) tr = (Some e, tr @ [Received data])
           \<and> receive_loop env reg send_error (Inr data # rest) tr
               = (Some e, tr @ [Received data])
           \<and> websocket_endpoint env reg send_error websocket (Inr data # rest) active
               = (Some e, active - {websocket}, [Received data])))"
proof (intro conjI impI)
  assume typed: "subscript data ''type'' = Inr kind \<and> kind \<noteq> JStr ''frame''"
  then have body: "on_message env reg data = Inr None"
    by (simp add: on_message_def)
  then have step: "receive_step env reg send_error (Inr data) tr' = (None, tr' @ [Received data])"
    for tr'
    by (simp add: receive_step_def)
  from step show "receive_step env reg send_error (Inr data) tr = (None, tr @ [Received data])" .
  from step show "receive_loop env reg send_error (Inr data # rest) tr
      = receive_loop env reg send_error rest (tr @ [Received data])"
    by simp
  from step show "websocket_endpoint env reg send_error websocket [Inr data] active
      = (None, insert websocket active, [Received data])"
    by (simp add: websocket_endpoint_def connect_def)
next
  assume "lacks_type data"
  then obtain e where sub: "subscript data ''type'' = Inl e"
    by (cases data) (auto simp: lacks_type_def)
  then have body: "on_message env reg data = Inl e"
    by (simp add: on_message_def)
  then have step: "receive_step env reg send_error (Inr data) tr' = (Some e, tr' @ [Received data])"
    for tr'
    by (simp add: receive_step_def)
  from sub step [of tr] step [of "[]"] show
    "\<exists>e. subscript data ''type'' = Inl e
       \<and> receive_step env reg send_error (Inr data) tr = (Some e, tr @ [Received data])
       \<and> receive_loop env reg send_error (Inr data # rest) tr = (Some e, tr @ [Received data])
       \<and> websocket_endpoint env reg send_error websocket (Inr data # rest) active
           = (Some e, active - {websocket}, [Received data])"
    by (simp add: websocket_endpoint_def connect_def disconnect_def)
qed

text \<open>
  A message of type \<^verbatim>\<open>ping\<close> is skipped; a JSON array, which is not an object, ends the
  session before the frame after it is read.
\<close>

theorem non_frame_message_skipped_witness:
  "subscript (JObj [(''type'', JStr ''ping'')]) ''type'' = Inr (JStr ''ping'')
   \<and> JStr ''ping'' \<noteq> JStr ''frame''
   \<and> websocket_endpoint demo_env demo_registry no_send_error 7
         [Inr (JObj [(''type'', JStr ''ping'')])] {3}
       = (None, {7, 3}, [Received (JObj [(''type'', JStr ''ping'')])])
   \<and> lacks_type (JArr [JStr ''ping''])
   \<and> websocket_endpoint demo_env demo_registry no_send_error 7
         [Inr (JArr [JStr ''ping'']), Inr (frame_message ''ff01'')] {3, 7}
       = (Some (PyErr TypeError ''list indices must be integers or slices, not str''), {3},
          [Received (JArr [JStr ''ping''])])"
proof -
  have h1: "subscript (JObj [(''type'', JStr ''ping'')]) ''type'' = Inr (JStr ''ping'')
      \<and> JStr ''ping'' \<noteq> JStr ''frame''"
    by simp
  have h2: "lacks_type (JArr [JStr ''ping''])"
    by (simp add: lacks_type_def)
  have sub: "subscript (JArr [JStr ''ping'']) ''type''
      = Inl (PyErr TypeError ''list indices must be integers or slices, not str'')"
    by simp
  from non_frame_message_skipped
         [where data = "JObj [(''type'', JStr ''ping'')]" and kind = "JStr ''ping''"
            and env = demo_env and reg = demo_registry and send_error = no_send_error
            and websocket = 7 and active = "{3}" and tr = "[]" and rest = "[]"]
       h1
  have a: "websocket_endpoint demo_env demo_registry no_send_error 7
         [Inr (JObj [(''type'', JStr ''ping'')])] {3}
       = (None, {7, 3}, [Received (JObj [(''type'', JStr ''ping'')])])"
    by simp
  from non_frame_message_skipped
         [where data = "JArr [JStr ''ping'']" and kind = "JStr ''ping''"
            and env = demo_env and reg = demo_registry and send_error = no_send_error
            and websocket = 7 and active = "{3, 7}" and tr = "[]"
            and rest = "[Inr (frame_message ''ff01'')]"]
       h2 sub
  have b: "websocket_endpoint demo_env demo_registry no_send_error 7
         [Inr (JArr [JStr ''ping'']), Inr (frame_message ''ff01'')] {3, 7}
       = (Some (PyErr TypeError ''list indices must be integers or slices, not str''), {3},
          [Received (JArr [JStr ''ping''])])"
    by (auto simp: insert_Diff_if)
  from h1 h2 a b show ?thesis by simp
qed

section \<open>Streaming: one frame in flight\<close>



section \<open>Streaming: the end of a session\<close>

text \<open>
  The payload \<^verbatim>\<open>00\<close> is hexadecimal, and the example decoder returns \<^verbatim>\<open>None\<close> for the
  byte it stands for. With a detector that returns a result for an absent frame nothing
  raises: a response is sent, the session stays open and registered, and the frame that
  follows is processed as well.
\<close>

theorem undecodable_frame_counterexample:
  "imdecode demo_env [0] = Inr None
   \<and> websocket_endpoint demo_env lenient_registry no_send_error 7
        [Inr (frame_message ''00''), Inr (frame_message ''ff01'')] {3}
      = (None, {7, 3},
         [Received (frame_message ''00''),
          Sent \<lparr>ws_type = ''detection_results'', ws_detections = [],
                ws_processing_time_ms = 0\<rparr>,
          Received (frame_message ''ff01''),
          Sent \<lparr>ws_type = ''detection_results'', ws_detections = [],
                ws_processing_time_ms = 0\<rparr>])"
  by (simp add: ws_defs)

text \<open>
  Claim C8, as amended. After any exception raised in a pass of the receive loop the
  endpoint returns with that exception and the connection is no longer in the manager's
  active set; nothing delivered afterwards is processed: the result is the same whatever
  follows, and the events end with the pass that raised. A pass raises
  \<^item> when \<^verbatim>\<open>receive_json\<close> fails (transport failure);
  \<^item> when \<^verbatim>\<open>send_json\<close> fails on the response (transport failure);
  \<^item> on a frame whose payload the hex parser rejects (malformed payload);
  \<^item> on every message of type \<^verbatim>\<open>"frame"\<close> while no detector is loaded (engine not
    ready).

  A payload that is hexadecimal but does not decode to an image is not an error of its
  own: the absent frame goes to the detector. The pass raises if the detector raises on
  it; if the detector returns a result and the send succeeds, the result is sent and the
  session stays open and registered.
\<close>

theorem failed_session_is_deregistered:
  "(receive_loop env reg send_error before [] = (None, tr)
      \<and> receive_step env reg send_error x tr = (Some e, tr') \<longrightarrow>
        websocket_endpoint env reg send_error websocket (before @ x # after) active
          = (Some e, active - {websocket}, tr')
      \<and> websocket \<notin> fst (snd (websocket_endpoint env reg send_error websocket
                                  (before @ x # after) active))
      \<and> websocket_endpoint env reg send_error websocket (before @ x # after) active
          = websocket_endpoint env reg send_error websocket (before @ [x]) active
      \<and> tr' = tr @ (case x of Inl e' \<Rightarrow> [] | Inr data \<Rightarrow> [Received data]))
   \<and> receive_step env reg send_error (Inl e) tr = (Some e, tr)
   \<and> (on_message env reg data = Inr (Some r) \<and> send_error (length (sent tr)) = Some e \<longrightarrow>
        receive_step env reg send_error (Inr data) tr = (Some e, tr @ [Received data]))
   \<and> (subscript data ''type'' = Inr (JStr ''frame'')
      \<and> subscript data ''frame'' = Inr (JStr hex) \<and> fromhex env hex = Inl e \<longrightarrow>
        receive_step env reg send_error (Inr data) tr = (Some e, tr @ [Received data]))
   \<and> (subscript data ''type'' = Inr (JStr ''frame'') \<and> detector reg = None \<longrightarrow>
        (\<exists>e'. receive_step env reg send_error (Inr data) tr = (Some e', tr @ [Received data])))
   \<and> (subscript data ''type'' = Inr (JStr ''frame'')
      \<and> subscript data ''frame'' = Inr (JStr hex) \<and> fromhex env hex = Inr raw
      \<and> imdecode env raw = Inr None \<and> detector reg = Some det \<longrightarrow>
        (det None = Inl e \<longrightarrow>
           receive_step env reg send_error (Inr data) tr = (Some e, tr @ [Received data]))
      \<and> (det None = Inr results \<and> send_error (length (sent tr)) = None \<longrightarrow>
           receive_step env reg send_error (Inr data) tr
             = (None, tr @ [Received data,
                            Sent \<lparr>ws_type = ''detection_results'',
                                  ws_detections = detections results,
                                  ws_processing_time_ms = processing_time results\<rparr>])
         \<and> receive_loop env reg send_error (Inr data # rest) tr
             = receive_loop env reg send_error rest
                 (tr @ [Received data,
                        Sent \<lparr>ws_type = ''detection_results'',
                              ws_detections = detections results,
                              ws_processing_time_ms = processing_time results\<rparr>]))
      \<and> (det None = Inr results \<and> send_error 0 = None \<longrightarrow>
           websocket_endpoint env reg send_error websocket [Inr data] active
             = (None, insert websocket active,
                [Received data,
                 Sent \<lparr>ws_type = ''detection_results'',
                       ws_detections = detections results,
                       ws_processing_time_ms = processing_time results\<rparr>])))"
proof -
  have ends: "receive_loop env reg send_error before [] = (None, tr)
      \<and> receive_step env reg send_error x tr = (Some e, tr') \<longrightarrow>
        websocket_endpoint env reg send_error websocket (before @ x # after) active
          = (Some e, active - {websocket}, tr')
      \<and> websocket \<notin> fst (snd (websocket_endpoint env reg send_error websocket
                                  (before @ x # after) active))
      \<and> websocket_endpoint env reg send_error websocket (before @ x # after) active
          = websocket_endpoint env reg send_error websocket (before @ [x]) active
      \<and> tr' = tr @ (case x of Inl e' \<Rightarrow> [] | Inr data \<Rightarrow> [Received data])"
  proof
    assume a: "receive_loop env reg send_error before [] = (None, tr)
      \<and> receive_step env reg send_error x tr = (Some e, tr')"
    then have loop: "receive_loop env reg send_error (before @ x # more) [] = (Some e, tr')"
      for more
      by (simp add: receive_loop_append)
    have shape: "tr' = tr @ (case x of Inl e' \<Rightarrow> [] | Inr data \<Rightarrow> [Received data])"
      using a by (auto simp: receive_step_raises)
    from loop [of after] loop [of "[]"] shape show
      "websocket_endpoint env reg send_error websocket (before @ x # after) active
          = (Some e, active - {websocket}, tr')
      \<and> websocket \<notin> fst (snd (websocket_endpoint env reg send_error websocket
                                  (before @ x # after) active))
      \<and> websocket_endpoint env reg send_error websocket (before @ x # after) active
          = websocket_endpoint env reg send_error websocket (before @ [x]) active
      \<and> tr' = tr @ (case x of Inl e' \<Rightarrow> [] | Inr data \<Rightarrow> [Received data])"
      by (simp add: websocket_endpoint_def connect_def disconnect_def)
  qed
  have recv: "receive_step env reg send_error (Inl e) tr = (Some e, tr)"
    by (simp add: receive_step_def)
  have send: "on_message env reg data = Inr (Some r) \<and> send_error (length (sent tr)) = Some e
      \<longrightarrow> receive_step env reg send_error (Inr data) tr = (Some e, tr @ [Received data])"
    by (simp add: receive_step_raises)
  have payload: "subscript data ''type'' = Inr (JStr ''frame'')
      \<and> subscript data ''frame'' = Inr (JStr hex) \<and> fromhex env hex = Inl e \<longrightarrow>
        receive_step env reg send_error (Inr data) tr = (Some e, tr @ [Received data])"
    by (simp add: receive_step_raises on_message_def bytes_fromhex_def)
  have engine: "subscript data ''type'' = Inr (JStr ''frame'') \<and> detector reg = None \<longrightarrow>
        (\<exists>e'. receive_step env reg send_error (Inr data) tr = (Some e', tr @ [Received data]))"
  proof
    assume a: "subscript data ''type'' = Inr (JStr ''frame'') \<and> detector reg = None"
    then obtain e' where "on_message env reg data = Inl e'"
      using on_message_engine_absent [of reg data env] by blast
    then show "\<exists>e'. receive_step env reg send_error (Inr data) tr
        = (Some e', tr @ [Received data])"
      by (auto simp: receive_step_raises)
  qed
  have absent: "subscript data ''type'' = Inr (JStr ''frame'')
      \<and> subscript data ''frame'' = Inr (JStr hex) \<and> fromhex env hex = Inr raw
      \<and> imdecode env raw = Inr None \<and> detector reg = Some det \<longrightarrow>
        (det None = Inl e \<longrightarrow>
           receive_step env reg send_error (Inr data) tr = (Some e, tr @ [Received data]))
      \<and> (det None = Inr results \<and> send_error (length (sent tr)) = None \<longrightarrow>
           receive_step env reg send_error (Inr data) tr
             = (None, tr @ [Received data,
                            Sent \<lparr>ws_type = ''detection_results'',
                                  ws_detections = detections results,
                                  ws_processing_time_ms = processing_time results\<rparr>])
         \<and> receive_loop env reg send_error (Inr data # rest) tr
             = receive_loop env reg send_error rest
                 (tr @ [Received data,
                        Sent \<lparr>ws_type = ''detection_results'',
                              ws_detections = detections results,
                              ws_processing_time_ms = processing_time results\<rparr>]))
      \<and> (det None = Inr results \<and> send_error 0 = None \<longrightarrow>
           websocket_endpoint env reg send_error websocket [Inr data] active
             = (None, insert websocket active,
                [Received data,
                 Sent \<lparr>ws_type = ''detection_results'',
                       ws_detections = detections results,
                       ws_processing_time_ms = processing_time results\<rparr>]))"
    by (simp add: websocket_endpoint_def connect_def receive_step_def on_message_def
          bytes_fromhex_def Let_def sent_append sent_simps)
  from ends recv send payload engine absent show ?thesis
    by (intro conjI)
qed

text \<open>
  A frame is answered, the next message carries a payload that is not hexadecimal, and a
  well-formed frame follows it: the session ends on the second message. With the lenient
  detector the pass on the payload \<^verbatim>\<open>00\<close> sends a response instead.
\<close>

theorem failed_session_is_deregistered_witness:
  "websocket_endpoint demo_env demo_registry no_send_error 7
       ([Inr (frame_message ''ff01'')] @ Inr (frame_message ''zz'')
          # [Inr (frame_message ''ff0102'')]) {3, 7}
     = (Some (PyErr ValueError ''non-hexadecimal number found in fromhex() arg''), {3},
        [Received (frame_message ''ff01''),
         Sent \<lparr>ws_type = ''detection_results'', ws_detections = [''apple''],
               ws_processing_time_ms = 1\<rparr>,
         Received (frame_message ''zz'')])
   \<and> receive_step demo_env lenient_registry no_send_error (Inr (frame_message ''00'')) []
     = (None, [Received (frame_message ''00''),
               Sent \<lparr>ws_type = ''detection_results'', ws_detections = [],
                     ws_processing_time_ms = 0\<rparr>])
   \<and> websocket_endpoint demo_env lenient_registry no_send_error 7
        [Inr (frame_message ''00'')] {3}
     = (None, {7, 3},
        [Received (frame_message ''00''),
         Sent \<lparr>ws_type = ''detection_results'', ws_detections = [],
               ws_processing_time_ms = 0\<rparr>])"
proof -
  have h1: "receive_loop demo_env demo_registry no_send_error [Inr (frame_message ''ff01'')] []
      = (None, [Received (frame_message ''ff01''),
                Sent \<lparr>ws_type = ''detection_results'', ws_detections = [''apple''],
                      ws_processing_time_ms = 1\<rparr>])"
    by (simp add: ws_defs)
  have h2: "receive_step demo_env demo_registry no_send_error (Inr (frame_message ''zz''))
        [Received (frame_message ''ff01''),
         Sent \<lparr>ws_type = ''detection_results'', ws_detections = [''apple''],
               ws_processing_time_ms = 1\<rparr>]
      = (Some (PyErr ValueError ''non-hexadecimal number found in fromhex() arg''),
         [Received (frame_message ''ff01''),
          Sent \<lparr>ws_type = ''detection_results'', ws_detections = [''apple''],
                ws_processing_time_ms = 1\<rparr>,
          Received (frame_message ''zz'')])"
    by (simp add: ws_defs)
  have h3: "subscript (frame_message ''00'') ''type'' = Inr (JStr ''frame'')
      \<and> subscript (frame_message ''00'') ''frame'' = Inr (JStr ''00'')
      \<and> fromhex demo_env ''00'' = Inr [0]
      \<and> imdecode demo_env [0] = Inr None
      \<and> detector lenient_registry = Some lenient_detector"
    by (simp add: frame_message_def demo_env_def lenient_registry_def)
  have h4: "lenient_detector None = Inr \<lparr>detections = [], processing_time = 0\<rparr>
      \<and> no_send_error (length (sent ([] :: string event list))) = None
      \<and> no_send_error 0 = None"
    by (simp add: lenient_detector_def no_send_error_def)
  from failed_session_is_deregistered
         [where env = demo_env and reg = demo_registry and send_error = no_send_error
            and before = "[Inr (frame_message ''ff01'')]" and x = "Inr (frame_message ''zz'')"
            and websocket = 7 and after = "[Inr (frame_message ''ff0102'')]"
            and active = "{3, 7}"
            and tr = "[Received (frame_message ''ff01''),
                       Sent \<lparr>ws_type = ''detection_results'', ws_detections = [''apple''],
                             ws_processing_time_ms = 1\<rparr>]"
            and e = "PyErr ValueError ''non-hexadecimal number found in fromhex() arg''"
            and tr' = "[Received (frame_message ''ff01''),
                        Sent \<lparr>ws_type = ''detection_results'', ws_detections = [''apple''],
                              ws_processing_time_ms = 1\<rparr>,
                        Received (frame_message ''zz'')]"]
       h1 h2
  have a: "websocket_endpoint demo_env demo_registry no_send_error 7
       ([Inr (frame_message ''ff01'')] @ Inr (frame_message ''zz'')
          # [Inr (frame_message ''ff0102'')]) {3, 7}
     = (Some (PyErr ValueError ''non-hexadecimal number found in fromhex() arg''), {3},
        [Received (frame_message ''ff01''),
         Sent \<lparr>ws_type = ''detection_results'', ws_detections = [''apple''],
               ws_processing_time_ms = 1\<rparr>,
         Received (frame_message ''zz'')])"
    by (simp add: insert_Diff_if)
  from failed_session_is_deregistered
         [where env = demo_env and reg = lenient_registry and send_error = no_send_error
            and data = "frame_message ''00''" and hex = "''00''" and raw = "[0]"
            and det = lenient_detector
            and results = "\<lparr>detections = [], processing_time = 0\<rparr>"
            and tr = "[]" and rest = "[]" and websocket = 7 and active = "{3}"]
       h3 h4
  have b: "receive_step demo_env lenient_registry no_send_error (Inr (frame_message ''00'')) []
     = (None, [Received (frame_message ''00''),
               Sent \<lparr>ws_type = ''detection_results'', ws_detections = [],
                     ws_processing_time_ms = 0\<rparr>])
   \<and> websocket_endpoint demo_env lenient_registry no_send_error 7
        [Inr (frame_message ''00'')] {3}
     = (None, {7, 3},
        [Received (frame_message ''00''),
         Sent \<lparr>ws_type = ''detection_results'', ws_detections = [],
               ws_processing_time_ms = 0\<rparr>])"
    by simp
  from a b show ?thesis by simp
qed

end
